theory Spec2Isabelle
  imports Main "HOL-Library.Sublist" "HOL-Library.Product_Lexorder"
begin

section \<open>Python values and exceptions\<close>

text \<open>
  The values that reach a language slot: \<^verbatim>\<open>None\<close> (the constructor's default),
  a boolean (\<^verbatim>\<open>False\<close> is the sentinel written by the secondary and tertiary
  setters) and a string (a language identifier). Python's \<^verbatim>\<open>==\<close> on these
  values is structural equality: \<^verbatim>\<open>None\<close>, a boolean and a string are never
  equal to one another.
\<close>

datatype pyval = PyNone | PyBool bool | PyStr string

text \<open>The exceptions that the modelled code can raise or see.\<close>

datatype error = RuntimeError string | ValueError string | TypeError

section \<open>The engine contract: \<^verbatim>\<open>lios/ocr/ocr_engine_base.py\<close>\<close>

text \<open>
  An instance of \<^verbatim>\<open>OcrEngineBase\<close>. \<^verbatim>\<open>__init__\<close> assigns only
  \<^verbatim>\<open>self.language\<close>; the attributes \<^verbatim>\<open>language_2\<close> and
  \<^verbatim>\<open>language_3\<close> do not exist until their setter has run, which is
  \<open>None\<close> here. The fields a concrete engine adds are the record's extension.
\<close>

record OcrEngineBase =
  language :: pyval
  language_2 :: "pyval option"
  language_3 :: "pyval option"

text \<open>
  \<^verbatim>\<open>def __init__(self,language=None): self.language = language\<close>.
  The argument is optional; when it is left out the default \<^verbatim>\<open>None\<close> is stored.
\<close>

definition init :: "pyval option \<Rightarrow> OcrEngineBase" where
  "init arg =
     \<lparr>language = (case arg of None \<Rightarrow> PyNone | Some l \<Rightarrow> l),
      language_2 = None,
      language_3 = None\<rparr>"

text \<open>
  The setters. \<open>available\<close> is what the instance's class returns from the abstract static
  method \<^verbatim>\<open>get_available_languages()\<close>, a list; \<^verbatim>\<open>language in list\<close> is
  membership. Each setter returns its boolean together with the instance after the call.
\<close>

definition set_language ::
  "pyval list \<Rightarrow> pyval \<Rightarrow> 'a OcrEngineBase_scheme \<Rightarrow> bool \<times> 'a OcrEngineBase_scheme" where
  "set_language available lang self =
     (if lang \<in> set available
      then (True, self\<lparr>language := lang\<rparr>)
      else (False, self))"

definition set_language_2 ::
  "pyval list \<Rightarrow> pyval \<Rightarrow> 'a OcrEngineBase_scheme \<Rightarrow> bool \<times> 'a OcrEngineBase_scheme" where
  "set_language_2 available lang self =
     (if lang \<in> set available
      then (True, self\<lparr>language_2 := Some lang\<rparr>)
      else (False, self\<lparr>language_2 := Some (PyBool False)\<rparr>))"

definition set_language_3 ::
  "pyval list \<Rightarrow> pyval \<Rightarrow> 'a OcrEngineBase_scheme \<Rightarrow> bool \<times> 'a OcrEngineBase_scheme" where
  "set_language_3 available lang self =
     (if lang \<in> set available
      then (True, self\<lparr>language_3 := Some lang\<rparr>)
      else (False, self\<lparr>language_3 := Some (PyBool False)\<rparr>))"

text \<open>
  \<^verbatim>\<open>def cancel(): pass\<close> is declared in the class body with no parameter at all and
  without \<^verbatim>\<open>@staticmethod\<close>. The function itself, applied to the positional
  arguments it is given: with none it returns \<^verbatim>\<open>None\<close>, with any other number
  Python raises \<^verbatim>\<open>TypeError\<close> before the body runs.
\<close>

definition cancel :: "'v list \<Rightarrow> error + pyval" where
  "cancel args =
     (if args = [] then Inr PyNone
      else Inl TypeError)"

text \<open>
  Attribute lookup on an instance binds a plain function of the class to the instance:
  \<^verbatim>\<open>engine.cancel()\<close> calls the function with the instance as first positional
  argument, followed by the arguments of the call (none here).
\<close>

definition cancel_on_instance :: "'a OcrEngineBase_scheme \<Rightarrow> error + pyval" where
  "cancel_on_instance self = cancel (self # [])"

text \<open>
  \<^verbatim>\<open>ocr_image_to_text_with_multiprocessing\<close>: the abstract method
  \<^verbatim>\<open>ocr_image_to_text\<close> of the concrete engine is the first argument. The body
  is the single statement \<^verbatim>\<open>return self.ocr_image_to_text(image_file_name)\<close>.
\<close>

definition ocr_image_to_text_with_multiprocessing ::
  "('a OcrEngineBase_scheme \<Rightarrow> string \<Rightarrow> 'r) \<Rightarrow> 'a OcrEngineBase_scheme \<Rightarrow> string \<Rightarrow> 'r" where
  "ocr_image_to_text_with_multiprocessing ocr_image_to_text self image_file_name =
     ocr_image_to_text self image_file_name"

text \<open>A call of one of the three setters, and a sequence of such calls on one instance.\<close>

datatype selection = Set_language pyval | Set_language_2 pyval | Set_language_3 pyval

fun select :: "pyval list \<Rightarrow> selection \<Rightarrow> 'a OcrEngineBase_scheme \<Rightarrow> 'a OcrEngineBase_scheme" where
  "select available (Set_language l) self = snd (set_language available l self)"
| "select available (Set_language_2 l) self = snd (set_language_2 available l self)"
| "select available (Set_language_3 l) self = snd (set_language_3 available l self)"

fun selections ::
  "pyval list \<Rightarrow> selection list \<Rightarrow> 'a OcrEngineBase_scheme \<Rightarrow> 'a OcrEngineBase_scheme" where
  "selections available [] self = self"
| "selections available (c # cs) self = selections available cs (select available c self)"

section \<open>The compatibility controller: \<^verbatim>\<open>lios/mp_compat.py\<close>\<close>

subsection \<open>Strings\<close>

text \<open>
  \<^verbatim>\<open>str\<close> of an integer, as an f-string renders it, and the substring test
  \<^verbatim>\<open>needle in haystack\<close> on strings.
\<close>

fun str_nat :: "nat \<Rightarrow> string" where
  "str_nat n =
     (if n < 10 then [''0123456789'' ! n]
      else str_nat (n div 10) @ [''0123456789'' ! (n mod 10)])"

declare str_nat.simps [simp del]

definition str_int :: "int \<Rightarrow> string" where
  "str_int i = (if i < 0 then ''-'' @ str_nat (nat (- i)) else str_nat (nat i))"

fun str_contains :: "string \<Rightarrow> string \<Rightarrow> bool" where
  "str_contains needle [] = (needle = [])"
| "str_contains needle (c # cs) = (prefix needle (c # cs) \<or> str_contains needle cs)"

text \<open>A start method, or \<^verbatim>\<open>None\<close>, as an f-string renders it.\<close>

definition str_method :: "string option \<Rightarrow> string" where
  "str_method m = (case m of None \<Rightarrow> ''None'' | Some name \<Rightarrow> name)"

subsection \<open>Process-wide state\<close>

text \<open>
  The state that the controller reads and writes, one per process:
  the class attributes \<^verbatim>\<open>_python_version\<close> (the major, minor and micro fields of
  \<^verbatim>\<open>sys.version_info\<close>) and \<^verbatim>\<open>_initialized\<close>, and the start method that the
  \<^verbatim>\<open>multiprocessing\<close> module has committed to (\<open>None\<close> while it has not).
\<close>

record runtime =
  cls_python_version :: "int \<times> int \<times> int"
  cls_initialized :: bool
  actual_context :: "string option"

text \<open>
  \<^verbatim>\<open>multiprocessing.get_start_method(allow_none=True)\<close> reads the committed start
  method and leaves it alone when there is none.
\<close>

definition get_start_method :: "'a runtime_scheme \<Rightarrow> string option" where
  "get_start_method s = actual_context s"

text \<open>
  \<^verbatim>\<open>multiprocessing.set_start_method(method, force)\<close> belongs to the standard library,
  not to the repository, so \<open>initialize\<close> below takes it as its first argument: a function from
  the method, the force flag and the committed start method to the exception raised or the
  start method committed afterwards. This is what CPython's implementation does, on a platform
  whose start methods are \<open>available\<close>:
  \<^verbatim>\<open>
    if self._actual_context is not None and not force:
        raise RuntimeError('context has already been set')
    ...
    self._actual_context = self.get_context(method)   # ValueError if method is unknown
  \<close>
\<close>

type_synonym set_start_method = "string \<Rightarrow> bool \<Rightarrow> string option \<Rightarrow> error + string option"

definition cpython_set_start_method :: "string list \<Rightarrow> set_start_method" where
  "cpython_set_start_method available method force ctx =
     (if ctx \<noteq> None \<and> \<not> force then Inl (RuntimeError ''context has already been set'')
      else if method \<in> set available then Inr (Some method)
      else Inl (ValueError (''cannot find context for '' @ [CHR 0x27] @ method @ [CHR 0x27])))"

subsection \<open>The class \<^verbatim>\<open>MultiprocessingCompatibility\<close>\<close>

definition get_python_version_info :: "'a runtime_scheme \<Rightarrow> int \<times> int \<times> int" where
  "get_python_version_info s = cls_python_version s"

definition needs_fork_workaround :: "'a runtime_scheme \<Rightarrow> bool" where
  "needs_fork_workaround s =
     (case get_python_version_info s of
        (major, minor, _) \<Rightarrow> major = 3 \<and> minor \<ge> 14 \<or> major > 3)"

text \<open>\<^verbatim>\<open>if verbose: print(line)\<close>: the lines printed.\<close>

definition say :: "bool \<Rightarrow> string \<Rightarrow> string list" where
  "say verbose line = (if verbose then [line] else [])"

text \<open>
  \<^verbatim>\<open>initialize(force, verbose)\<close> returns the exception it lets through or its boolean,
  the lines it printed, and the state afterwards. Only \<^verbatim>\<open>RuntimeError\<close> is caught;
  any other exception of \<^verbatim>\<open>set_start_method\<close> leaves the function.
\<close>

definition initialize ::
  "set_start_method \<Rightarrow> bool \<Rightarrow> bool \<Rightarrow> 'a runtime_scheme \<Rightarrow>
     (error + bool) \<times> string list \<times> 'a runtime_scheme" where
  "initialize set_start_method force verbose s =
     (if cls_initialized s \<and> \<not> force
      then (Inr True, say verbose ''[mp_compat] Already initialized'', s)
      else
        (case get_python_version_info s of (major, minor, micro) \<Rightarrow>
          let detected = say verbose (''[mp_compat] Python '' @ str_int major @ ''.'' @
                           str_int minor @ ''.'' @ str_int micro @ '' detected'')
          in
          if needs_fork_workaround s then
            (let current_method = get_start_method s in
             case (if current_method \<noteq> Some ''fork''
                   then set_start_method ''fork'' force (actual_context s)
                   else Inr (actual_context s)) of
               Inr ctx \<Rightarrow>
                 (Inr True,
                  detected @ say verbose
                    (if current_method \<noteq> Some ''fork''
                     then ''[mp_compat] Changed start method from '' @ [CHR 0x27] @
                          str_method current_method @ [CHR 0x27] @ '' to '' @
                          [CHR 0x27] @ ''fork'' @ [CHR 0x27]
                     else ''[mp_compat] Start method already set to '' @
                          [CHR 0x27] @ ''fork'' @ [CHR 0x27]),
                  s\<lparr>actual_context := ctx, cls_initialized := True\<rparr>)
             | Inl (RuntimeError e) \<Rightarrow>
                 if str_contains ''context has already been set'' e \<and> \<not> force
                 then (Inr True,
                       detected @ say verbose
                         ''[mp_compat] Start method already set (cannot change)'',
                       s\<lparr>cls_initialized := True\<rparr>)
                 else (Inr False,
                       detected @ say verbose
                         (''[mp_compat] Warning: Could not set start method: '' @ e),
                       s)
             | Inl other \<Rightarrow> (Inl other, detected, s))
          else
            (Inr True,
             detected @ say verbose ''[mp_compat] No workaround needed for this Python version'',
             s\<lparr>cls_initialized := True\<rparr>)))"

text \<open>The dictionary that \<^verbatim>\<open>get_status()\<close> returns, one field per key.\<close>

record status =
  python_version :: string
  python_version_tuple :: "int \<times> int \<times> int"
  needs_workaround :: bool
  current_start_method :: "string option"
  initialized :: bool
  compatible :: bool

definition get_status :: "'a runtime_scheme \<Rightarrow> status" where
  "get_status s =
     (case get_python_version_info s of (major, minor, micro) \<Rightarrow>
        let current_method = get_start_method s in
        \<lparr>python_version = str_int major @ ''.'' @ str_int minor @ ''.'' @ str_int micro,
         python_version_tuple = (major, minor, micro),
         needs_workaround = needs_fork_workaround s,
         current_start_method = current_method,
         initialized = cls_initialized s,
         compatible =
           (if needs_fork_workaround s then current_method = Some ''fork'' else True)\<rparr>)"

text \<open>
  \<open>initialize\<close> called \<open>n\<close> times in a row with the same arguments, and a sequence of calls
  of the class's methods; each continues from the state the one before left, also after an
  exception that the caller caught.
\<close>

fun initialize_times ::
  "set_start_method \<Rightarrow> nat \<Rightarrow> bool \<Rightarrow> bool \<Rightarrow> 'a runtime_scheme \<Rightarrow> 'a runtime_scheme" where
  "initialize_times ssm 0 force verbose s = s"
| "initialize_times ssm (Suc n) force verbose s =
     initialize_times ssm n force verbose (snd (snd (initialize ssm force verbose s)))"

datatype call =
  Initialize bool bool | Get_status | Needs_fork_workaround | Get_python_version_info

fun call_state :: "set_start_method \<Rightarrow> call \<Rightarrow> 'a runtime_scheme \<Rightarrow> 'a runtime_scheme" where
  "call_state ssm (Initialize force verbose) s = snd (snd (initialize ssm force verbose s))"
| "call_state ssm Get_status s = s"
| "call_state ssm Needs_fork_workaround s = s"
| "call_state ssm Get_python_version_info s = s"

fun calls :: "set_start_method \<Rightarrow> call list \<Rightarrow> 'a runtime_scheme \<Rightarrow> 'a runtime_scheme" where
  "calls ssm [] s = s"
| "calls ssm (c # cs) s = calls ssm cs (call_state ssm c s)"

section \<open>The language slots\<close>

text \<open>
  C1: for every supported-language list and every language id, \<open>set_language\<close> returns
  true if and only if the id is a member of the list, and when it returns true the primary
  slot afterwards holds exactly that id.
\<close>

theorem set_language_iff_available:
  "(fst (set_language available lang self) \<longleftrightarrow> lang \<in> set available) \<and>
   (fst (set_language available lang self) \<longrightarrow>
      language (snd (set_language available lang self)) = lang)"
  by (simp add: set_language_def)

theorem set_language_iff_available_witness:
  "(fst (set_language [PyStr ''eng'', PyStr ''mal''] (PyStr ''mal'') (init None)) \<longleftrightarrow>
      PyStr ''mal'' \<in> set [PyStr ''eng'', PyStr ''mal'']) \<and>
   fst (set_language [PyStr ''eng'', PyStr ''mal''] (PyStr ''mal'') (init None)) \<and>
   language (snd (set_language [PyStr ''eng'', PyStr ''mal''] (PyStr ''mal'') (init None)))
     = PyStr ''mal''"
  using set_language_iff_available
    [of "[PyStr ''eng'', PyStr ''mal'']" "PyStr ''mal''" "init None"]
  by (simp add: set_language_def)

text \<open>
  C6: for every instance and every language id outside the supported list,
  \<open>set_language_2\<close> returns false and leaves slot 2 holding the sentinel \<^verbatim>\<open>False\<close>,
  whatever it held before; \<open>set_language_3\<close> does the same with slot 3.
\<close>

theorem set_language_2_3_unsupported:
  "lang \<notin> set available \<Longrightarrow>
     set_language_2 available lang self = (False, self\<lparr>language_2 := Some (PyBool False)\<rparr>) \<and>
     set_language_3 available lang self = (False, self\<lparr>language_3 := Some (PyBool False)\<rparr>)"
  by (simp add: set_language_2_def set_language_3_def)

theorem set_language_2_3_unsupported_witness:
  "PyStr ''xx'' \<notin> set [PyStr ''eng''] \<and>
   set_language_2 [PyStr ''eng''] (PyStr ''xx'')
       \<lparr>language = PyStr ''eng'', language_2 = Some (PyStr ''eng''), language_3 = None\<rparr>
     = (False,
        \<lparr>language = PyStr ''eng'', language_2 = Some (PyBool False), language_3 = None\<rparr>) \<and>
   set_language_3 [PyStr ''eng''] (PyStr ''xx'')
       \<lparr>language = PyStr ''eng'', language_2 = Some (PyStr ''eng''), language_3 = None\<rparr>
     = (False,
        \<lparr>language = PyStr ''eng'', language_2 = Some (PyStr ''eng''),
         language_3 = Some (PyBool False)\<rparr>)"
  using set_language_2_3_unsupported
    [of "PyStr ''xx''" "[PyStr ''eng'']"
        "\<lparr>language = PyStr ''eng'', language_2 = Some (PyStr ''eng''), language_3 = None\<rparr>"]
  by simp

text \<open>
  C7: for every instance and every language id outside the supported list,
  \<open>set_language\<close> returns false and returns the instance as it was: the primary slot, the
  other two slots and every field a concrete engine adds.
\<close>

theorem set_language_unsupported_unchanged:
  "lang \<notin> set available \<Longrightarrow> set_language available lang self = (False, self)"
  by (simp add: set_language_def)

theorem set_language_unsupported_unchanged_witness:
  "PyStr ''xx'' \<notin> set [PyStr ''eng''] \<and>
   set_language [PyStr ''eng''] (PyStr ''xx'')
       \<lparr>language = PyStr ''eng'', language_2 = Some (PyBool False), language_3 = None\<rparr>
     = (False,
        \<lparr>language = PyStr ''eng'', language_2 = Some (PyBool False), language_3 = None\<rparr>)"
  using set_language_unsupported_unchanged
    [of "PyStr ''xx''" "[PyStr ''eng'']"
        "\<lparr>language = PyStr ''eng'', language_2 = Some (PyBool False), language_3 = None\<rparr>"]
  by simp

text \<open>
  C8 as stated fails twice. The constructor stores its argument unchecked, so the primary
  slot of a fresh instance can hold an id outside the supported list; and an invalid
  selection of the primary slot keeps the language selected before instead of an unset
  or false value.
\<close>

theorem primary_slot_counterexample:
  "language (init (Some (PyStr ''xx''))) = PyStr ''xx'' \<and>
   PyStr ''xx'' \<notin> set [PyStr ''eng''] \<and>
   language (selections [PyStr ''eng'']
       [Set_language (PyStr ''eng''), Set_language (PyStr ''xx'')] (init None)) = PyStr ''eng'' \<and>
   PyStr ''eng'' \<noteq> PyBool False \<and> PyStr ''eng'' \<noteq> PyNone"
  by (simp add: init_def set_language_def)

text \<open>What one selection does to each slot.\<close>

lemma select_language:
  "language (select available c self) = language self \<or>
   language (select available c self) \<in> set available"
  by (cases c) (simp_all add: set_language_def set_language_2_def set_language_3_def)

lemma select_language_2:
  "language_2 (select available c self) = language_2 self \<or>
   language_2 (select available c self) = Some (PyBool False) \<or>
   language_2 (select available c self) \<in> Some ` set available"
  by (cases c) (simp_all add: set_language_def set_language_2_def set_language_3_def)

lemma select_language_3:
  "language_3 (select available c self) = language_3 self \<or>
   language_3 (select available c self) = Some (PyBool False) \<or>
   language_3 (select available c self) \<in> Some ` set available"
  by (cases c) (simp_all add: set_language_def set_language_2_def set_language_3_def)

lemma selections_language:
  "language self = v \<or> language self \<in> set available \<Longrightarrow>
   language (selections available cs self) = v \<or>
   language (selections available cs self) \<in> set available"
proof (induction cs arbitrary: self)
  case Nil
  then show ?case by simp
next
  case (Cons c cs)
  from Cons.prems select_language [of available c self]
  have "language (select available c self) = v \<or>
        language (select available c self) \<in> set available"
    by auto
  then show ?case by (simp add: Cons.IH)
qed

lemma selections_language_2:
  "language_2 self = None \<or> language_2 self = Some (PyBool False) \<or>
     language_2 self \<in> Some ` set available \<Longrightarrow>
   language_2 (selections available cs self) = None \<or>
   language_2 (selections available cs self) = Some (PyBool False) \<or>
   language_2 (selections available cs self) \<in> Some ` set available"
proof (induction cs arbitrary: self)
  case Nil
  then show ?case by simp
next
  case (Cons c cs)
  from Cons.prems select_language_2 [of available c self]
  have "language_2 (select available c self) = None \<or>
        language_2 (select available c self) = Some (PyBool False) \<or>
        language_2 (select available c self) \<in> Some ` set available"
    by auto
  then show ?case by (simp add: Cons.IH)
qed

lemma selections_language_3:
  "language_3 self = None \<or> language_3 self = Some (PyBool False) \<or>
     language_3 self \<in> Some ` set available \<Longrightarrow>
   language_3 (selections available cs self) = None \<or>
   language_3 (selections available cs self) = Some (PyBool False) \<or>
   language_3 (selections available cs self) \<in> Some ` set available"
proof (induction cs arbitrary: self)
  case Nil
  then show ?case by simp
next
  case (Cons c cs)
  from Cons.prems select_language_3 [of available c self]
  have "language_3 (select available c self) = None \<or>
        language_3 (select available c self) = Some (PyBool False) \<or>
        language_3 (select available c self) \<in> Some ` set available"
    by auto
  then show ?case by (simp add: Cons.IH)
qed

text \<open>
  C8, amended: after construction and any sequence of slot-selection calls, the primary slot
  holds the constructor's value or a member of the supported list; slots 2 and 3 are
  unassigned, hold the sentinel \<^verbatim>\<open>False\<close> or hold a member of the supported list; and
  a further invalid selection leaves slot 2 or slot 3 holding \<^verbatim>\<open>False\<close> and leaves the
  primary slot with the value it had.
\<close>

theorem slots_after_selections:
  "(language (selections available cs (init arg)) = language (init arg) \<or>
    language (selections available cs (init arg)) \<in> set available) \<and>
   (language_2 (selections available cs (init arg)) = None \<or>
    language_2 (selections available cs (init arg)) = Some (PyBool False) \<or>
    language_2 (selections available cs (init arg)) \<in> Some ` set available) \<and>
   (language_3 (selections available cs (init arg)) = None \<or>
    language_3 (selections available cs (init arg)) = Some (PyBool False) \<or>
    language_3 (selections available cs (init arg)) \<in> Some ` set available) \<and>
   (lang \<notin> set available \<longrightarrow>
      language_2 (select available (Set_language_2 lang) (selections available cs (init arg)))
        = Some (PyBool False) \<and>
      language_3 (select available (Set_language_3 lang) (selections available cs (init arg)))
        = Some (PyBool False) \<and>
      language (select available (Set_language lang) (selections available cs (init arg)))
        = language (selections available cs (init arg)))"
proof (intro conjI impI)
  show "language (selections available cs (init arg)) = language (init arg) \<or>
    language (selections available cs (init arg)) \<in> set available"
    by (rule selections_language) simp
  show "language_2 (selections available cs (init arg)) = None \<or>
    language_2 (selections available cs (init arg)) = Some (PyBool False) \<or>
    language_2 (selections available cs (init arg)) \<in> Some ` set available"
    by (rule selections_language_2) (simp add: init_def)
  show "language_3 (selections available cs (init arg)) = None \<or>
    language_3 (selections available cs (init arg)) = Some (PyBool False) \<or>
    language_3 (selections available cs (init arg)) \<in> Some ` set available"
    by (rule selections_language_3) (simp add: init_def)
next
  assume "lang \<notin> set available"
  then show "language_2 (select available (Set_language_2 lang)
      (selections available cs (init arg))) = Some (PyBool False)"
    by (simp add: set_language_2_def)
next
  assume "lang \<notin> set available"
  then show "language_3 (select available (Set_language_3 lang)
      (selections available cs (init arg))) = Some (PyBool False)"
    by (simp add: set_language_3_def)
next
  assume "lang \<notin> set available"
  then show "language (select available (Set_language lang)
      (selections available cs (init arg))) = language (selections available cs (init arg))"
    by (simp add: set_language_def)
qed

theorem slots_after_selections_witness:
  "language (selections [PyStr ''eng'', PyStr ''mal'']
      [Set_language (PyStr ''eng''), Set_language_2 (PyStr ''mal''),
       Set_language_2 (PyStr ''xx''), Set_language_3 (PyStr ''mal'')] (init None))
     = PyStr ''eng'' \<and>
   language_2 (selections [PyStr ''eng'', PyStr ''mal'']
      [Set_language (PyStr ''eng''), Set_language_2 (PyStr ''mal''),
       Set_language_2 (PyStr ''xx''), Set_language_3 (PyStr ''mal'')] (init None))
     = Some (PyBool False) \<and>
   language_3 (selections [PyStr ''eng'', PyStr ''mal'']
      [Set_language (PyStr ''eng''), Set_language_2 (PyStr ''mal''),
       Set_language_2 (PyStr ''xx''), Set_language_3 (PyStr ''mal'')] (init None))
     = Some (PyStr ''mal'') \<and>
   PyStr ''xx'' \<notin> set [PyStr ''eng'', PyStr ''mal''] \<and>
   language_3 (select [PyStr ''eng'', PyStr ''mal''] (Set_language_3 (PyStr ''xx''))
     (selections [PyStr ''eng'', PyStr ''mal'']
      [Set_language (PyStr ''eng''), Set_language_2 (PyStr ''mal''),
       Set_language_2 (PyStr ''xx''), Set_language_3 (PyStr ''mal'')] (init None)))
     = Some (PyBool False) \<and>
   language (select [PyStr ''eng'', PyStr ''mal''] (Set_language (PyStr ''xx''))
     (selections [PyStr ''eng'', PyStr ''mal'']
      [Set_language (PyStr ''eng''), Set_language_2 (PyStr ''mal''),
       Set_language_2 (PyStr ''xx''), Set_language_3 (PyStr ''mal'')] (init None)))
     = PyStr ''eng''"
  using slots_after_selections
    [of "[PyStr ''eng'', PyStr ''mal'']"
        "[Set_language (PyStr ''eng''), Set_language_2 (PyStr ''mal''),
          Set_language_2 (PyStr ''xx''), Set_language_3 (PyStr ''mal'')]"
        None "PyStr ''xx''"]
  by (simp add: init_def set_language_def set_language_2_def set_language_3_def)

text \<open>
  C9 fails on the code: \<open>cancel\<close> is declared without \<^verbatim>\<open>self\<close>, so the call on an
  instance, which passes the instance as an argument, raises \<^verbatim>\<open>TypeError\<close> for
  every instance. Called with no argument at all the function does return.
\<close>

theorem cancel_on_instance_raises:
  "cancel_on_instance self = Inl TypeError \<and> cancel [] = Inr PyNone"
  by (simp add: cancel_on_instance_def cancel_def)

section \<open>The compatibility controller\<close>

text \<open>Without force, an initialized state is returned as it is.\<close>

lemma initialize_already:
  "cls_initialized s \<Longrightarrow>
   initialize ssm False verbose s =
     (Inr True, say verbose ''[mp_compat] Already initialized'', s)"
  by (simp add: initialize_def)

text \<open>
  Every path of \<open>initialize\<close> keeps the version, never clears the flag, and either sets
  the flag or returns the state it was given.
\<close>

lemma initialize_state:
  "cls_python_version (snd (snd (initialize ssm force verbose s))) = cls_python_version s \<and>
   (cls_initialized s \<longrightarrow> cls_initialized (snd (snd (initialize ssm force verbose s)))) \<and>
   (cls_initialized (snd (snd (initialize ssm force verbose s))) \<or>
      snd (snd (initialize ssm force verbose s)) = s)"
proof (cases "cls_initialized s \<and> \<not> force")
  case True
  then show ?thesis by (simp add: initialize_def)
next
  case False
  obtain major minor micro where v: "get_python_version_info s = (major, minor, micro)"
    by (cases "get_python_version_info s") auto
  show ?thesis
  proof (cases "needs_fork_workaround s")
    case nf: False
    with False v show ?thesis by (simp add: initialize_def Let_def)
  next
    case nt: True
    define r where "r = (if get_start_method s \<noteq> Some ''fork''
                   then ssm ''fork'' force (actual_context s)
                   else Inr (actual_context s))"
    show ?thesis
    proof (cases r)
      case (Inr ctx)
      with False v nt show ?thesis
        unfolding initialize_def Let_def r_def by (simp del: str_contains.simps)
    next
      case (Inl err)
      with False v nt show ?thesis
        unfolding initialize_def Let_def r_def by (cases err) (simp_all del: str_contains.simps)
    qed
  qed
qed

lemma initialize_twice:
  "snd (snd (initialize ssm False verbose (snd (snd (initialize ssm False verbose s)))))
     = snd (snd (initialize ssm False verbose s))"
proof -
  let ?t = "snd (snd (initialize ssm False verbose s))"
  from initialize_state [of ssm False verbose s]
  have "cls_initialized ?t \<or> ?t = s" by blast
  then show ?thesis
  proof
    assume "cls_initialized ?t"
    then show ?thesis by (simp add: initialize_already)
  next
    assume "?t = s"
    then show ?thesis by simp
  qed
qed

lemma initialize_times_fixed:
  "initialize_times ssm n False verbose (snd (snd (initialize ssm False verbose s)))
     = snd (snd (initialize ssm False verbose s))"
  by (induction n) (simp_all add: initialize_twice)

text \<open>
  C2: for every library behaviour, every starting state and every \<open>n \<ge> 1\<close>, \<open>n\<close> calls
  of \<open>initialize\<close> without force leave the state, and so the result of \<open>get_status\<close>,
  that one call leaves; and in an initialized state a call without force returns true and
  returns the state unchanged.
\<close>

theorem initialize_idempotent:
  "(1 \<le> n \<longrightarrow>
      initialize_times ssm n False verbose s = initialize_times ssm 1 False verbose s \<and>
      get_status (initialize_times ssm n False verbose s)
        = get_status (initialize_times ssm 1 False verbose s)) \<and>
   (cls_initialized t \<longrightarrow>
      initialize ssm False verbose t
        = (Inr True, say verbose ''[mp_compat] Already initialized'', t))"
proof (intro conjI impI)
  assume "1 \<le> n"
  then obtain m where n: "n = Suc m" by (cases n) auto
  show e: "initialize_times ssm n False verbose s = initialize_times ssm 1 False verbose s"
    by (simp add: n initialize_times_fixed)
  show "get_status (initialize_times ssm n False verbose s)
        = get_status (initialize_times ssm 1 False verbose s)"
    by (simp only: e)
next
  assume "cls_initialized t"
  then show "initialize ssm False verbose t
        = (Inr True, say verbose ''[mp_compat] Already initialized'', t)"
    by (rule initialize_already)
qed

theorem initialize_idempotent_witness:
  "(1 :: nat) \<le> 3 \<and>
   initialize_times (cpython_set_start_method [''fork'', ''spawn'', ''forkserver'']) 3 False False
       \<lparr>cls_python_version = (3, 14, 0), cls_initialized = False, actual_context = None\<rparr>
     = \<lparr>cls_python_version = (3, 14, 0), cls_initialized = True,
        actual_context = Some ''fork''\<rparr> \<and>
   initialize_times (cpython_set_start_method [''fork'', ''spawn'', ''forkserver'']) 1 False False
       \<lparr>cls_python_version = (3, 14, 0), cls_initialized = False, actual_context = None\<rparr>
     = \<lparr>cls_python_version = (3, 14, 0), cls_initialized = True,
        actual_context = Some ''fork''\<rparr> \<and>
   cls_initialized
     \<lparr>cls_python_version = (3, 14, 0), cls_initialized = True,
      actual_context = Some ''fork''\<rparr> \<and>
   initialize (cpython_set_start_method [''fork'', ''spawn'', ''forkserver'']) False False
       \<lparr>cls_python_version = (3, 14, 0), cls_initialized = True,
        actual_context = Some ''fork''\<rparr>
     = (Inr True, [],
        \<lparr>cls_python_version = (3, 14, 0), cls_initialized = True,
         actual_context = Some ''fork''\<rparr>)"
proof -
  have one: "snd (snd (initialize
       (cpython_set_start_method [''fork'', ''spawn'', ''forkserver'']) False False
       \<lparr>cls_python_version = (3, 14, 0), cls_initialized = False, actual_context = None\<rparr>))
     = \<lparr>cls_python_version = (3, 14, 0), cls_initialized = True,
        actual_context = Some ''fork''\<rparr>"
    by (simp add: initialize_def Let_def get_python_version_info_def needs_fork_workaround_def
        get_start_method_def cpython_set_start_method_def say_def)
  show ?thesis
    using initialize_idempotent
      [of 3 "cpython_set_start_method [''fork'', ''spawn'', ''forkserver'']" False
          "\<lparr>cls_python_version = (3, 14, 0), cls_initialized = False, actual_context = None\<rparr>"
          "\<lparr>cls_python_version = (3, 14, 0), cls_initialized = True,
            actual_context = Some ''fork''\<rparr>"]
    by (simp add: one say_def)
qed





text \<open>
  C4: \<open>needs_fork_workaround\<close> is true exactly when (major, minor) is at or above (3, 14)
  in the lexicographic order, which includes every major version above 3; and with version
  (3, 13, 0) \<open>initialize\<close>, with any arguments and any library behaviour, returns true, the
  status afterwards has \<open>needs_workaround\<close> false and \<open>compatible\<close> true, and the start
  method is the one before the call.
\<close>

theorem needs_fork_workaround_from_3_14:
  "(needs_fork_workaround s \<longleftrightarrow>
      (3 :: int, 14 :: int) \<le> (fst (cls_python_version s), fst (snd (cls_python_version s)))) \<and>
   (cls_python_version t = (3, 13, 0) \<longrightarrow>
      fst (initialize ssm force verbose t) = Inr True \<and>
      \<not> needs_workaround (get_status (snd (snd (initialize ssm force verbose t)))) \<and>
      compatible (get_status (snd (snd (initialize ssm force verbose t)))) \<and>
      actual_context (snd (snd (initialize ssm force verbose t))) = actual_context t)"
proof (intro conjI impI)
  show "needs_fork_workaround s \<longleftrightarrow>
      (3 :: int, 14 :: int) \<le> (fst (cls_python_version s), fst (snd (cls_python_version s)))"
    by (cases "cls_python_version s")
      (auto simp: needs_fork_workaround_def get_python_version_info_def)
next
  assume v: "cls_python_version t = (3, 13, 0)"
  then have n: "\<not> needs_fork_workaround t"
    by (simp add: needs_fork_workaround_def get_python_version_info_def)
  have i: "initialize ssm force verbose t =
      (Inr True, say verbose ''[mp_compat] Already initialized'', t) \<or>
    initialize ssm force verbose t =
      (Inr True,
       say verbose (''[mp_compat] Python '' @ str_int 3 @ ''.'' @ str_int 13 @ ''.'' @
         str_int 0 @ '' detected'') @
       say verbose ''[mp_compat] No workaround needed for this Python version'',
       t\<lparr>cls_initialized := True\<rparr>)"
    using v n by (simp add: initialize_def Let_def get_python_version_info_def)
  from i show "fst (initialize ssm force verbose t) = Inr True" by auto
  from i v show "\<not> needs_workaround (get_status (snd (snd (initialize ssm force verbose t))))"
    by (auto simp: get_status_def needs_fork_workaround_def get_python_version_info_def)
  from i v show "compatible (get_status (snd (snd (initialize ssm force verbose t))))"
    by (auto simp: get_status_def needs_fork_workaround_def get_python_version_info_def)
  from i show "actual_context (snd (snd (initialize ssm force verbose t))) = actual_context t"
    by auto
qed

theorem needs_fork_workaround_from_3_14_witness:
  "needs_fork_workaround
     \<lparr>cls_python_version = (4, 0, 0), cls_initialized = False, actual_context = None\<rparr> \<and>
   cls_python_version
     \<lparr>cls_python_version = (3, 13, 0), cls_initialized = False, actual_context = None\<rparr>
     = (3, 13, 0) \<and>
   initialize (cpython_set_start_method [''fork'', ''spawn'', ''forkserver'']) True False
     \<lparr>cls_python_version = (3, 13, 0), cls_initialized = False, actual_context = None\<rparr>
     = (Inr True, [],
        \<lparr>cls_python_version = (3, 13, 0), cls_initialized = True, actual_context = None\<rparr>) \<and>
   \<not> needs_workaround (get_status
     \<lparr>cls_python_version = (3, 13, 0), cls_initialized = True, actual_context = None\<rparr>) \<and>
   compatible (get_status
     \<lparr>cls_python_version = (3, 13, 0), cls_initialized = True, actual_context = None\<rparr>)"
  using needs_fork_workaround_from_3_14
    [of "\<lparr>cls_python_version = (4, 0, 0), cls_initialized = False, actual_context = None\<rparr>"
        "\<lparr>cls_python_version = (3, 13, 0), cls_initialized = False, actual_context = None\<rparr>"
        "cpython_set_start_method [''fork'', ''spawn'', ''forkserver'']" True False]
  by (simp add: initialize_def Let_def get_python_version_info_def needs_fork_workaround_def
      get_start_method_def say_def get_status_def)

text \<open>
  C10: the flag is monotone. From an initialized state, every sequence of calls of the
  class's methods, with any arguments and any library behaviour, ends in a state whose flag
  is set and whose status reports \<open>initialized\<close> true; this includes a forced
  \<open>initialize\<close> that returns false.
\<close>

theorem initialized_monotone:
  "cls_initialized s \<Longrightarrow>
     cls_initialized (calls ssm cs s) \<and> initialized (get_status (calls ssm cs s))"
proof (induction cs arbitrary: s)
  case Nil
  then show ?case
    by (cases "get_python_version_info s") (simp add: get_status_def Let_def)
next
  case (Cons c cs)
  from Cons.prems have "cls_initialized (call_state ssm c s)"
    using initialize_state [of ssm _ _ s] by (cases c) simp_all
  then show ?case by (simp add: Cons.IH)
qed

theorem initialized_monotone_witness:
  "cls_initialized
     \<lparr>cls_python_version = (3, 14, 0), cls_initialized = True,
      actual_context = Some ''spawn''\<rparr> \<and>
   fst (initialize (\<lambda>method force ctx. Inl (RuntimeError ''start method is frozen'')) True False
     \<lparr>cls_python_version = (3, 14, 0), cls_initialized = True,
      actual_context = Some ''spawn''\<rparr>) = Inr False \<and>
   calls (\<lambda>method force ctx. Inl (RuntimeError ''start method is frozen''))
     [Initialize True False, Get_status, Initialize False False]
     \<lparr>cls_python_version = (3, 14, 0), cls_initialized = True,
      actual_context = Some ''spawn''\<rparr>
     = \<lparr>cls_python_version = (3, 14, 0), cls_initialized = True,
        actual_context = Some ''spawn''\<rparr> \<and>
   initialized (get_status
     \<lparr>cls_python_version = (3, 14, 0), cls_initialized = True,
      actual_context = Some ''spawn''\<rparr>)"
  using initialized_monotone
    [of "\<lparr>cls_python_version = (3, 14, 0), cls_initialized = True,
         actual_context = Some ''spawn''\<rparr>"
        "\<lambda>method force ctx. Inl (RuntimeError ''start method is frozen'')"
        "[Initialize True False, Get_status, Initialize False False]"]
  by (simp add: initialize_def Let_def get_python_version_info_def needs_fork_workaround_def
      get_start_method_def say_def get_status_def)

section \<open>The dispatch entry point\<close>

text \<open>
  C5: in every process state whose status reports \<open>compatible\<close> false, for every engine
  instance, every implementation of \<open>ocr_image_to_text\<close> and every image path, the entry
  point for parallel recognition is the direct call in the caller's process: it has the
  result and the effect on the instance and on the process state that
  \<open>ocr_image_to_text\<close> has, and nothing besides.
\<close>

theorem with_multiprocessing_is_direct_call:
  "\<not> compatible (get_status s) \<Longrightarrow>
     ocr_image_to_text_with_multiprocessing ocr_image_to_text self image_file_name s
       = ocr_image_to_text self image_file_name s"
  by (simp add: ocr_image_to_text_with_multiprocessing_def)

theorem with_multiprocessing_is_direct_call_witness:
  "\<not> compatible (get_status
     \<lparr>cls_python_version = (3, 14, 0), cls_initialized = True,
      actual_context = Some ''spawn''\<rparr>) \<and>
   ocr_image_to_text_with_multiprocessing
     (\<lambda>self image_file_name s. (Inr (''text of '' @ image_file_name) :: error + string, self, s))
     (init (Some (PyStr ''eng''))) ''page.png''
     \<lparr>cls_python_version = (3, 14, 0), cls_initialized = True,
      actual_context = Some ''spawn''\<rparr>
   = (Inr ''text of page.png'', init (Some (PyStr ''eng'')),
      \<lparr>cls_python_version = (3, 14, 0), cls_initialized = True,
       actual_context = Some ''spawn''\<rparr>)"
  using with_multiprocessing_is_direct_call
    [of "\<lparr>cls_python_version = (3, 14, 0), cls_initialized = True,
         actual_context = Some ''spawn''\<rparr>"
        "\<lambda>self image_file_name s. (Inr (''text of '' @ image_file_name) :: error + string, self, s)"
        "init (Some (PyStr ''eng''))" "''page.png''"]
  by (simp add: get_status_def get_python_version_info_def needs_fork_workaround_def
      get_start_method_def)

end
